theory Spec2Isabelle
  imports Complex_Main "HOL-Library.Sublist" "HOL-Library.Char_ord" "HOL-Library.List_Lexorder"
begin

section \<open>Bikeshare.py: the data model\<close>

text \<open>
  The script works on a pandas DataFrame. A frame is modelled row by row: the column
  labels in order, and one list of cells per row (cell \<open>i\<close> of a row belongs to column
  \<open>i\<close>). A cell is a Python string, a number, the missing value NaN, or a timestamp.
  Numbers are reals: Python compares and hashes \<open>1\<close> and \<open>1.0\<close> as the same value, and
  rounding of floating-point sums is not modelled. A character of a string is a code
  point below 256; text with other code points is outside the model. A pandas Timestamp
  is a count of nanoseconds since 1970-01-01T00:00:00; NaT is the missing timestamp.
\<close>

datatype timestamp = NaT | TS int

datatype cell = Str string | Num real | NaN | Time timestamp

type_synonym series = "cell list"

record dataframe =
  columns :: "string list"
  rows :: "cell list list"

text \<open>
  Every pandas frame is rectangular and \<open>read_csv\<close> makes the column labels distinct.
\<close>

definition wf_df :: "dataframe \<Rightarrow> bool" where
  "wf_df df \<longleftrightarrow>
     distinct (columns df) \<and> list_all (\<lambda>r. length r = length (columns df)) (rows df)"

text \<open>
  The exceptions. The first six are raised by Python and pandas on the paths of the
  script. The last four are the error taxonomy of the specification; the script defines
  and raises none of them.
\<close>

datatype error =
    KeyError | ValueError | TypeError | AttributeError | FileNotFoundError | EOFError
  | ConfigurationError | DataFormatError | InvalidFilterError | NoDataError

section \<open>The pandas operations the script uses\<close>

fun index_of :: "'a \<Rightarrow> 'a list \<Rightarrow> nat option" where
  "index_of c [] = None"
| "index_of c (x # xs) = (if x = c then Some 0 else map_option Suc (index_of c xs))"

text \<open>\<open>df[column]\<close>: the cells of one column, top to bottom; KeyError for an unknown label.\<close>

definition get_column :: "dataframe \<Rightarrow> string \<Rightarrow> error + series" where
  "get_column df c =
     (case index_of c (columns df) of
        None \<Rightarrow> Inl KeyError
      | Some i \<Rightarrow> Inr (map (\<lambda>r. r ! i) (rows df)))"

text \<open>
  \<open>df[column] = values\<close>: an existing column is overwritten in place, a new one is
  appended as the last column; values of the wrong length are a ValueError.
\<close>

definition set_column :: "dataframe \<Rightarrow> string \<Rightarrow> series \<Rightarrow> error + dataframe" where
  "set_column df c vs =
     (if length vs \<noteq> length (rows df) then Inl ValueError
      else case index_of c (columns df) of
        Some i \<Rightarrow> Inr (df\<lparr>rows := map (\<lambda>(r, v). r[i := v]) (zip (rows df) vs)\<rparr>)
      | None \<Rightarrow> Inr (df\<lparr>columns := columns df @ [c],
                         rows := map (\<lambda>(r, v). r @ [v]) (zip (rows df) vs)\<rparr>))"

text \<open>\<open>df[target] = f(df[source])\<close>, the shape of every assignment of the script.\<close>

definition assign_from ::
  "dataframe \<Rightarrow> string \<Rightarrow> string \<Rightarrow> (series \<Rightarrow> error + series) \<Rightarrow> error + dataframe" where
  "assign_from df target source f =
     (case get_column df source of
        Inl e \<Rightarrow> Inl e
      | Inr s \<Rightarrow> (case f s of Inl e \<Rightarrow> Inl e | Inr vs \<Rightarrow> set_column df target vs))"

text \<open>
  \<open>pd.to_datetime(series)\<close>. The parser of pandas is outside the repository: it is the
  parameter \<open>conv\<close>, which gives the timestamp of a cell, or None where pandas raises.
\<close>

definition to_datetime :: "(cell \<Rightarrow> timestamp option) \<Rightarrow> series \<Rightarrow> error + series" where
  "to_datetime conv s =
     (if list_all (\<lambda>c. conv c \<noteq> None) s then Inr (map (\<lambda>c. Time (the (conv c))) s)
      else Inl ValueError)"

subsection \<open>Calendar fields of a timestamp\<close>

definition ns_per_day :: int where
  "ns_per_day = 86400 * 1000000000"

definition ns_per_hour :: int where
  "ns_per_hour = 3600 * 1000000000"

definition is_leapyear :: "int \<Rightarrow> bool" where
  "is_leapyear y \<longleftrightarrow> y mod 4 = 0 \<and> (y mod 100 \<noteq> 0 \<or> y mod 400 = 0)"

text \<open>
  The year of a day number (days since 1970-01-01) and the day within that year, by the
  400-, 100-, 4- and 1-year cycles of the Gregorian calendar counted from 2000-01-01.
\<close>

definition days_to_yearsdays :: "int \<Rightarrow> int \<times> int" where
  "days_to_yearsdays days0 =
     (let d400 = days0 - (365 * 30 + 7);
          y400 = 400 * (d400 div 146097);
          d = d400 mod 146097
      in if d \<ge> 366 then
           (let y100 = y400 + 100 * ((d - 1) div 36524);
                d = (d - 1) mod 36524
            in if d \<ge> 365 then
                 (let y4 = y100 + 4 * ((d + 1) div 1461);
                      d = (d + 1) mod 1461
                  in if d \<ge> 366 then (y4 + (d - 1) div 365 + 2000, (d - 1) mod 365)
                     else (y4 + 2000, d))
               else (y100 + 2000, d))
         else (y400 + 2000, d))"

definition month_lengths :: "bool \<Rightarrow> int list" where
  "month_lengths leap =
     [31, if leap then 29 else 28, 31, 30, 31, 30, 31, 31, 30, 31, 30, 31]"

text \<open>
  Walk the month lengths; \<open>i\<close> counts the months already passed. The empty list is
  reached only by a day number beyond the year's end and then answers the last month.
\<close>

fun month_in_year :: "int list \<Rightarrow> int \<Rightarrow> nat \<Rightarrow> nat" where
  "month_in_year [] d i = i"
| "month_in_year (l # ls) d i = (if d < l then i + 1 else month_in_year ls (d - l) (i + 1))"

definition ts_month :: "int \<Rightarrow> nat" where
  "ts_month ns =
     (let (y, d) = days_to_yearsdays (ns div ns_per_day)
      in month_in_year (month_lengths (is_leapyear y)) d 0)"

text \<open>Monday is 0; 1970-01-01 was a Thursday.\<close>

definition ts_dayofweek :: "int \<Rightarrow> nat" where
  "ts_dayofweek ns = nat ((ns div ns_per_day + 3) mod 7)"

definition ts_hour :: "int \<Rightarrow> nat" where
  "ts_hour ns = nat ((ns div ns_per_hour) mod 24)"

definition MONTH_NAMES :: "string list" where
  "MONTH_NAMES = [''January'', ''February'', ''March'', ''April'', ''May'', ''June'',
     ''July'', ''August'', ''September'', ''October'', ''November'', ''December'']"

definition DAY_NAMES :: "string list" where
  "DAY_NAMES = [''Monday'', ''Tuesday'', ''Wednesday'', ''Thursday'', ''Friday'',
     ''Saturday'', ''Sunday'']"

text \<open>
  The \<open>.dt\<close> accessor needs a datetime column. \<open>month_name()\<close> and \<open>day_name()\<close> give the
  English names, and NaN for NaT. \<open>hour\<close> gives the hour, and NaN for NaT.
\<close>

fun is_time :: "cell \<Rightarrow> bool" where
  "is_time (Time t) = True"
| "is_time c = False"

fun month_name_cell :: "cell \<Rightarrow> cell" where
  "month_name_cell (Time (TS ns)) = Str (MONTH_NAMES ! (ts_month ns - 1))"
| "month_name_cell c = NaN"

fun day_name_cell :: "cell \<Rightarrow> cell" where
  "day_name_cell (Time (TS ns)) = Str (DAY_NAMES ! ts_dayofweek ns)"
| "day_name_cell c = NaN"

fun hour_cell :: "cell \<Rightarrow> cell" where
  "hour_cell (Time (TS ns)) = Num (of_nat (ts_hour ns))"
| "hour_cell c = NaN"

definition dt_apply :: "(cell \<Rightarrow> cell) \<Rightarrow> series \<Rightarrow> error + series" where
  "dt_apply f s = (if list_all is_time s then Inr (map f s) else Inl AttributeError)"

subsection \<open>Python strings\<close>

text \<open>
  \<open>str.lower()\<close>: among the code points below 256 the capitals are A to Z and the
  accented capitals 192 to 222 without the multiplication sign 215; each has its small
  letter 32 places further on.
\<close>

definition lower_char :: "char \<Rightarrow> char" where
  "lower_char c =
     (let n = (of_char c :: nat)
      in if (65 \<le> n \<and> n \<le> 90) \<or> (192 \<le> n \<and> n \<le> 222 \<and> n \<noteq> 215) then char_of (n + 32)
         else c)"

definition lower :: "string \<Rightarrow> string" where
  "lower s = map lower_char s"

text \<open>
  \<open>str.strip()\<close> removes white space at both ends: tab to carriage return, the four
  separators 28 to 31, the space, next line (133) and the no-break space (160).
\<close>

definition is_space :: "char \<Rightarrow> bool" where
  "is_space c \<longleftrightarrow>
     (of_char c :: nat) \<in> {9, 10, 11, 12, 13, 28, 29, 30, 31, 32, 133, 160}"

definition strip :: "string \<Rightarrow> string" where
  "strip s = rev (dropWhile is_space (rev (dropWhile is_space s)))"

text \<open>
  \<open>int(s)\<close> on a string: white space around it is dropped, one sign may lead, and the
  rest must be decimal digits, where single underscores may stand between two digits.
  None is Python's ValueError. The limit that newer Python versions put on the number of
  digits is not modelled.
\<close>

definition is_digit :: "char \<Rightarrow> bool" where
  "is_digit c \<longleftrightarrow> 48 \<le> (of_char c :: nat) \<and> (of_char c :: nat) \<le> 57"

fun int_digits :: "string \<Rightarrow> nat \<Rightarrow> nat option" where
  "int_digits [] acc = Some acc"
| "int_digits (c # cs) acc =
     (if is_digit c then int_digits cs (10 * acc + (of_char c - 48))
      else if c = CHR ''_'' \<and> cs \<noteq> [] \<and> is_digit (hd cs) then int_digits cs acc
      else None)"

definition int_of_str :: "string \<Rightarrow> int option" where
  "int_of_str s =
     (let t = strip s;
          signed = (t \<noteq> [] \<and> (hd t = CHR ''-'' \<or> hd t = CHR ''+''));
          ds = (if signed then tl t else t)
      in if ds = [] \<or> \<not> is_digit (hd ds) then None
         else map_option (\<lambda>n. if signed \<and> hd t = CHR ''-'' then - int n else int n)
                (int_digits ds 0))"

text \<open>\<open>.str.lower()\<close>: lower case of each string, NaN for every other cell.\<close>

fun str_lower_cell :: "cell \<Rightarrow> cell" where
  "str_lower_cell (Str s) = Str (lower s)"
| "str_lower_cell c = NaN"

text \<open>\<open>series == value\<close> and \<open>df[mask]\<close>: the rows whose mask entry is True, in order.\<close>

definition eq_mask :: "series \<Rightarrow> string \<Rightarrow> bool list" where
  "eq_mask s v = map (\<lambda>c. c = Str v) s"

definition select_rows :: "dataframe \<Rightarrow> bool list \<Rightarrow> dataframe" where
  "select_rows df bs = df\<lparr>rows := map snd (filter fst (zip bs (rows df)))\<rparr>"

section \<open>load\_data\<close>

definition CITY_DATA :: "(string \<times> string) list" where
  "CITY_DATA =
     [(''chicago'', ''/mnt/data/chicago.csv''),
      (''new york city'', ''/mnt/data/new_york_city.csv''),
      (''washington'', ''/mnt/data/washington.csv'')]"

text \<open>
  Lines 59 to 62: parse the start time and add the three derived columns to the frame
  that \<open>read_csv\<close> returned.
\<close>

definition load_data_derive :: "(cell \<Rightarrow> timestamp option) \<Rightarrow> dataframe \<Rightarrow> error + dataframe" where
  "load_data_derive conv df =
     (case assign_from df ''Start Time'' ''Start Time'' (to_datetime conv) of
        Inl e \<Rightarrow> Inl e
      | Inr df \<Rightarrow>
     (case assign_from df ''month'' ''Start Time''
             (\<lambda>s. map_sum id (map str_lower_cell) (dt_apply month_name_cell s)) of
        Inl e \<Rightarrow> Inl e
      | Inr df \<Rightarrow>
     (case assign_from df ''day_of_week'' ''Start Time''
             (\<lambda>s. map_sum id (map str_lower_cell) (dt_apply day_name_cell s)) of
        Inl e \<Rightarrow> Inl e
      | Inr df \<Rightarrow> assign_from df ''hour'' ''Start Time'' (dt_apply hour_cell))))"

text \<open>Lines 64 to 69: the two filters, each rebinding \<open>df\<close> to a new frame.\<close>

definition filter_eq :: "dataframe \<Rightarrow> string \<Rightarrow> string \<Rightarrow> error + dataframe" where
  "filter_eq df c v =
     (case get_column df c of
        Inl e \<Rightarrow> Inl e
      | Inr s \<Rightarrow> Inr (select_rows df (eq_mask s v)))"

definition load_data_filter :: "dataframe \<Rightarrow> string \<Rightarrow> string \<Rightarrow> error + dataframe" where
  "load_data_filter df month day =
     (case (if month \<noteq> ''all'' then filter_eq df ''month'' month else Inr df) of
        Inl e \<Rightarrow> Inl e
      | Inr df \<Rightarrow> if day \<noteq> ''all'' then filter_eq df ''day_of_week'' day else Inr df)"

text \<open>
  The whole function. \<open>read_csv\<close> is the file system as pandas reads it: the frame of a
  path, or None where there is no such file.
\<close>

definition load_data ::
  "(string \<Rightarrow> dataframe option) \<Rightarrow> (cell \<Rightarrow> timestamp option) \<Rightarrow>
     string \<Rightarrow> string \<Rightarrow> string \<Rightarrow> error + dataframe" where
  "load_data read_csv conv city month day =
     (case map_of CITY_DATA city of
        None \<Rightarrow> Inl KeyError
      | Some path \<Rightarrow>
     (case read_csv path of
        None \<Rightarrow> Inl FileNotFoundError
      | Some df \<Rightarrow>
     (case load_data_derive conv df of
        Inl e \<Rightarrow> Inl e
      | Inr df \<Rightarrow> load_data_filter df month day)))"

section \<open>Series reductions\<close>

fun isna :: "cell \<Rightarrow> bool" where
  "isna NaN = True"
| "isna (Time NaT) = True"
| "isna c = False"

definition dropna :: "series \<Rightarrow> series" where
  "dropna s = filter (\<lambda>c. \<not> isna c) s"

text \<open>
  The hash table of pandas keeps the distinct values in the order in which they first
  appear.
\<close>

fun unique :: "'a list \<Rightarrow> 'a list" where
  "unique [] = []"
| "unique (x # xs) = x # filter (\<lambda>y. y \<noteq> x) (unique xs)"

definition max_count :: "'a list \<Rightarrow> nat" where
  "max_count xs = fold max (map (count_list xs) xs) 0"

definition hash_mode :: "'a list \<Rightarrow> 'a list" where
  "hash_mode xs = filter (\<lambda>k. count_list xs k = max_count xs) (unique xs)"

fun is_str :: "cell \<Rightarrow> bool" where
  "is_str (Str s) = True"
| "is_str c = False"

fun is_number :: "cell \<Rightarrow> bool" where
  "is_number (Num x) = True"
| "is_number c = False"

fun is_ts :: "cell \<Rightarrow> bool" where
  "is_ts (Time (TS n)) = True"
| "is_ts c = False"

fun str_of :: "cell \<Rightarrow> string" where
  "str_of (Str s) = s"
| "str_of c = []"

fun num_of :: "cell \<Rightarrow> real" where
  "num_of (Num x) = x"
| "num_of c = 0"

fun ns_of :: "cell \<Rightarrow> int" where
  "ns_of (Time (TS n)) = n"
| "ns_of c = 0"

text \<open>
  \<open>Series.mode()\<close>: the values of highest count among the values present, sorted
  ascending. Strings sort by code point, numbers and timestamps by value. Where the
  modes have no common order (a string beside a number), pandas warns and leaves them
  in hash-table order.
\<close>

definition series_mode :: "series \<Rightarrow> series" where
  "series_mode s =
     (let m = hash_mode (dropna s)
      in if list_all is_str m then map Str (sort (map str_of m))
         else if list_all is_number m then map Num (sort (map num_of m))
         else if list_all is_ts m then map (\<lambda>n. Time (TS n)) (sort (map ns_of m))
         else m)"

text \<open>
  \<open>sum()\<close>, \<open>mean()\<close>, \<open>min()\<close> and \<open>max()\<close> depend on the kind of column that
  \<open>read_csv\<close> made. A column of numbers and missing values is numeric: the four skip
  the missing values; the sum of no values is 0, the mean, the minimum and the maximum of
  no values are NaN. A numeric column of whole numbers in the 64-bit range with no
  missing value is an int64 column, and its sum wraps around like 64-bit addition. A
  column of strings only is summed by concatenation and compared by code points, and
  has no mean. Every other column (a string beside a number or a missing value, a
  timestamp) is a TypeError.
\<close>

definition is_numeric :: "series \<Rightarrow> bool" where
  "is_numeric s \<longleftrightarrow> list_all (\<lambda>c. is_number c \<or> c = NaN) s"

definition is_int64 :: "series \<Rightarrow> bool" where
  "is_int64 s \<longleftrightarrow>
     list_all (\<lambda>c. is_number c \<and> of_int \<lfloor>num_of c\<rfloor> = num_of c
                 \<and> - (2 ^ 63) \<le> num_of c \<and> num_of c < 2 ^ 63) s"

definition wrap64 :: "int \<Rightarrow> int" where
  "wrap64 n = (n + 2 ^ 63) mod 2 ^ 64 - 2 ^ 63"

definition series_sum :: "series \<Rightarrow> error + cell" where
  "series_sum s =
     (if is_int64 s then Inr (Num (of_int (wrap64 (sum_list (map (\<lambda>c. \<lfloor>num_of c\<rfloor>) s)))))
      else if is_numeric s then Inr (Num (sum_list (map num_of (dropna s))))
      else if list_all is_str s then Inr (Str (concat (map str_of s)))
      else Inl TypeError)"

definition series_mean :: "series \<Rightarrow> error + cell" where
  "series_mean s =
     (if is_numeric s
      then (let xs = map num_of (dropna s)
            in Inr (if xs = [] then NaN else Num (sum_list xs / of_nat (length xs))))
      else Inl TypeError)"

definition series_min :: "series \<Rightarrow> error + cell" where
  "series_min s =
     (if is_numeric s
      then (let xs = map num_of (dropna s)
            in Inr (if xs = [] then NaN else Num (fold min (tl xs) (hd xs))))
      else if list_all is_str s
      then (let xs = map str_of s in Inr (Str (fold min (tl xs) (hd xs))))
      else Inl TypeError)"

definition series_max :: "series \<Rightarrow> error + cell" where
  "series_max s =
     (if is_numeric s
      then (let xs = map num_of (dropna s)
            in Inr (if xs = [] then NaN else Num (fold max (tl xs) (hd xs))))
      else if list_all is_str s
      then (let xs = map str_of s in Inr (Str (fold max (tl xs) (hd xs))))
      else Inl TypeError)"

text \<open>
  \<open>value_counts()\<close>: the count of every value present, highest count first; equal
  counts stay in order of first appearance.
\<close>

definition value_counts :: "series \<Rightarrow> (cell \<times> nat) list" where
  "value_counts s =
     (let v = dropna s
      in sort_key (\<lambda>p. - int (snd p)) (map (\<lambda>k. (k, count_list v k)) (unique v)))"

text \<open>
  Python's \<open>int(x)\<close>: a float is truncated towards zero, NaN is a ValueError, a string
  is read as a decimal number, and a timestamp is a TypeError.
\<close>

fun py_int :: "cell \<Rightarrow> error + int" where
  "py_int (Num x) = Inr (if x < 0 then \<lceil>x\<rceil> else \<lfloor>x\<rfloor>)"
| "py_int NaN = Inl ValueError"
| "py_int (Str s) = (case int_of_str s of None \<Rightarrow> Inl ValueError | Some n \<Rightarrow> Inr n)"
| "py_int (Time t) = Inl TypeError"

text \<open>
  \<open>series + " to " + series\<close> on string columns: a missing value on either side gives
  NaN, a number or a timestamp beside a string is a TypeError. A column that holds cells
  but no string is numeric (float64) for pandas, which refuses to add a string to it.
\<close>

definition is_object :: "series \<Rightarrow> bool" where
  "is_object s \<longleftrightarrow> s = [] \<or> list_ex is_str s"

fun add_cell :: "cell \<Rightarrow> cell \<Rightarrow> error + cell" where
  "add_cell (Str a) (Str b) = Inr (Str (a @ b))"
| "add_cell a b = (if isna a \<or> isna b then Inr NaN else Inl TypeError)"

fun sequence :: "(error + 'a) list \<Rightarrow> error + 'a list" where
  "sequence [] = Inr []"
| "sequence (x # xs) =
     (case x of
        Inl e \<Rightarrow> Inl e
      | Inr v \<Rightarrow> (case sequence xs of Inl e \<Rightarrow> Inl e | Inr vs \<Rightarrow> Inr (v # vs)))"

definition add_scalar :: "series \<Rightarrow> string \<Rightarrow> error + series" where
  "add_scalar s v =
     (if is_object s then sequence (map (\<lambda>c. add_cell c (Str v)) s) else Inl TypeError)"

definition add_series :: "series \<Rightarrow> series \<Rightarrow> error + series" where
  "add_series s t =
     (if is_object s \<or> is_object t then sequence (map (\<lambda>(a, b). add_cell a b) (zip s t))
      else Inl TypeError)"

text \<open>
  \<open>df.iloc[a:b]\<close>: a Python slice on row positions. A negative bound counts from the
  end, and both bounds are clipped to the number of rows.
\<close>

definition slice_bound :: "int \<Rightarrow> nat \<Rightarrow> nat" where
  "slice_bound i n = (if i < 0 then nat (max (i + int n) 0) else min (nat i) n)"

definition iloc :: "dataframe \<Rightarrow> int \<Rightarrow> int \<Rightarrow> dataframe" where
  "iloc df a b =
     (let n = length (rows df); lo = slice_bound a n; hi = slice_bound b n
      in df\<lparr>rows := take (hi - lo) (drop lo (rows df))\<rparr>)"

section \<open>The statistics\<close>

text \<open>
  The script prints its results. A function of the model returns what the source
  prints, or the exception that ends it. The four statistics take the frame by
  reference, so the model also returns the frame as the call leaves it. Elapsed
  wall-clock time is not modelled.
\<close>

definition display_statistics :: "dataframe \<Rightarrow> string \<Rightarrow> string \<Rightarrow> error + string \<times> cell" where
  "display_statistics df column stat_name =
     (case get_column df column of
        Inl e \<Rightarrow> Inl e
      | Inr s \<Rightarrow>
          (case series_mode s of
             [] \<Rightarrow> Inl KeyError
           | most_common # _ \<Rightarrow> Inr (stat_name, most_common)))"

definition time_stats :: "dataframe \<Rightarrow> (error + (string \<times> cell) list) \<times> dataframe" where
  "time_stats df =
     (case display_statistics df ''month'' ''Month'' of
        Inl e \<Rightarrow> (Inl e, df)
      | Inr a \<Rightarrow>
     (case display_statistics df ''day_of_week'' ''Day of Week'' of
        Inl e \<Rightarrow> (Inl e, df)
      | Inr b \<Rightarrow>
     (case display_statistics df ''hour'' ''Start Hour'' of
        Inl e \<Rightarrow> (Inl e, df)
      | Inr c \<Rightarrow> (Inr [a, b, c], df))))"

text \<open>Line 112: \<open>df['Start Station'] + " to " + df['End Station']\<close>.\<close>

definition start_end_combination :: "dataframe \<Rightarrow> error + series" where
  "start_end_combination df =
     (case get_column df ''Start Station'' of
        Inl e \<Rightarrow> Inl e
      | Inr s \<Rightarrow>
     (case add_scalar s '' to '' of
        Inl e \<Rightarrow> Inl e
      | Inr st \<Rightarrow>
     (case get_column df ''End Station'' of
        Inl e \<Rightarrow> Inl e
      | Inr t \<Rightarrow> add_series st t)))"

definition station_stats :: "dataframe \<Rightarrow> (error + (string \<times> cell) list) \<times> dataframe" where
  "station_stats df =
     (case display_statistics df ''Start Station'' ''Start Station'' of
        Inl e \<Rightarrow> (Inl e, df)
      | Inr a \<Rightarrow>
     (case display_statistics df ''End Station'' ''End Station'' of
        Inl e \<Rightarrow> (Inl e, df)
      | Inr b \<Rightarrow>
     (case start_end_combination df of
        Inl e \<Rightarrow> (Inl e, df)
      | Inr vs \<Rightarrow>
     (case set_column df ''Start-End Combination'' vs of
        Inl e \<Rightarrow> (Inl e, df)
      | Inr df' \<Rightarrow>
     (case display_statistics df' ''Start-End Combination'' ''Trip'' of
        Inl e \<Rightarrow> (Inl e, df')
      | Inr c \<Rightarrow> (Inr [a, b, c], df'))))))"

record duration_output =
  total_duration :: cell
  mean_duration :: cell

definition trip_duration_stats :: "dataframe \<Rightarrow> (error + duration_output) \<times> dataframe" where
  "trip_duration_stats df =
     (case get_column df ''Trip Duration'' of
        Inl e \<Rightarrow> (Inl e, df)
      | Inr s \<Rightarrow>
     (case series_sum s of
        Inl e \<Rightarrow> (Inl e, df)
      | Inr tot \<Rightarrow>
     (case series_mean s of
        Inl e \<Rightarrow> (Inl e, df)
      | Inr avg \<Rightarrow> (Inr \<lparr>total_duration = tot, mean_duration = avg\<rparr>, df))))"

record birth_output =
  earliest :: int
  most_recent :: int
  most_common_year :: int

record user_output =
  user_types :: "(cell \<times> nat) list"
  gender_distribution :: "(cell \<times> nat) list option"
  birth_years :: "birth_output option"

text \<open>Lines 152 to 154, run when the frame has a birth-year column.\<close>

definition birth_year_stats :: "series \<Rightarrow> error + birth_output" where
  "birth_year_stats s =
     (case series_min s of Inl e \<Rightarrow> Inl e | Inr lo \<Rightarrow>
     (case py_int lo of Inl e \<Rightarrow> Inl e | Inr lo' \<Rightarrow>
     (case series_max s of Inl e \<Rightarrow> Inl e | Inr hi \<Rightarrow>
     (case py_int hi of Inl e \<Rightarrow> Inl e | Inr hi' \<Rightarrow>
     (case series_mode s of
        [] \<Rightarrow> Inl KeyError
      | m # _ \<Rightarrow>
     (case py_int m of Inl e \<Rightarrow> Inl e | Inr m' \<Rightarrow>
        Inr \<lparr>earliest = lo', most_recent = hi', most_common_year = m'\<rparr>))))))"

definition user_stats :: "dataframe \<Rightarrow> (error + user_output) \<times> dataframe" where
  "user_stats df =
     (case get_column df ''User Type'' of
        Inl e \<Rightarrow> (Inl e, df)
      | Inr u \<Rightarrow>
     (case (if ''Gender'' \<in> set (columns df)
            then map_sum id (\<lambda>g. Some (value_counts g)) (get_column df ''Gender'')
            else Inr None) of
        Inl e \<Rightarrow> (Inl e, df)
      | Inr g \<Rightarrow>
     (case (if ''Birth Year'' \<in> set (columns df)
            then (case get_column df ''Birth Year'' of
                    Inl e \<Rightarrow> Inl e
                  | Inr s \<Rightarrow> map_sum id Some (birth_year_stats s))
            else Inr None) of
        Inl e \<Rightarrow> (Inl e, df)
      | Inr b \<Rightarrow>
          (Inr \<lparr>user_types = value_counts u, gender_distribution = g, birth_years = b\<rparr>,
           df))))"

section \<open>Prompts and raw data\<close>

text \<open>
  \<open>get_user_input\<close> reads lines of standard input until one, stripped and in lower
  case, is among the valid inputs. The model takes the lines still to be read and
  returns the answer with the lines left; input that ends first is Python's EOFError.
\<close>

fun get_user_input :: "string list \<Rightarrow> string list \<Rightarrow> (error + string) \<times> string list" where
  "get_user_input valid_inputs [] = (Inl EOFError, [])"
| "get_user_input valid_inputs (l # ls) =
     (let response = lower (strip l)
      in if response \<in> set valid_inputs then (Inr response, ls)
         else get_user_input valid_inputs ls)"

definition MONTH_INPUTS :: "string list" where
  "MONTH_INPUTS = [''january'', ''february'', ''march'', ''april'', ''may'', ''june'', ''all'']"

definition DAY_INPUTS :: "string list" where
  "DAY_INPUTS = [''monday'', ''tuesday'', ''wednesday'', ''thursday'', ''friday'',
     ''saturday'', ''sunday'', ''all'']"

definition get_filters :: "string list \<Rightarrow> (error + string \<times> string \<times> string) \<times> string list" where
  "get_filters stdin =
     (case get_user_input (map fst CITY_DATA) stdin of
        (Inl e, rest) \<Rightarrow> (Inl e, rest)
      | (Inr city, rest) \<Rightarrow>
     (case get_user_input MONTH_INPUTS rest of
        (Inl e, rest) \<Rightarrow> (Inl e, rest)
      | (Inr month, rest) \<Rightarrow>
     (case get_user_input DAY_INPUTS rest of
        (Inl e, rest) \<Rightarrow> (Inl e, rest)
      | (Inr day, rest) \<Rightarrow> (Inr (city, month, day), rest))))"

text \<open>
  \<open>display_raw_data\<close>: one page of \<open>batch_size\<close> rows for every "yes". The model takes
  the answers that the successive prompts return and gives the pages printed.
\<close>

fun display_raw_data_from :: "dataframe \<Rightarrow> int \<Rightarrow> int \<Rightarrow> string list \<Rightarrow> dataframe list" where
  "display_raw_data_from df batch_size row_index [] = []"
| "display_raw_data_from df batch_size row_index (a # answers) =
     (if a = ''yes''
      then iloc df row_index (row_index + batch_size)
             # display_raw_data_from df batch_size (row_index + batch_size) answers
      else [])"

definition display_raw_data :: "dataframe \<Rightarrow> int \<Rightarrow> string list \<Rightarrow> dataframe list" where
  "display_raw_data df batch_size answers = display_raw_data_from df batch_size 0 answers"

section \<open>Notions used to state the properties\<close>

text \<open>The cell of a row in a named column of its frame.\<close>

definition row_get :: "dataframe \<Rightarrow> cell list \<Rightarrow> string \<Rightarrow> cell" where
  "row_get df r c = (case index_of c (columns df) of None \<Rightarrow> NaN | Some i \<Rightarrow> r ! i)"

text \<open>The rows that a month and a day filter keep.\<close>

definition keeps :: "dataframe \<Rightarrow> string \<Rightarrow> string \<Rightarrow> cell list \<Rightarrow> bool" where
  "keeps df month day r \<longleftrightarrow>
     (month = ''all'' \<or> row_get df r ''month'' = Str month) \<and>
     (day = ''all'' \<or> row_get df r ''day_of_week'' = Str day)"


subsection \<open>A small data set\<close>

text \<open>
  Three trips, as \<open>read_csv\<close> returns them, and the timestamps that pandas parses from
  their start times: a Monday and the Monday after it in January 2017, and a Tuesday in
  February 2017.
\<close>

definition sample_raw :: dataframe where
  "sample_raw =
     \<lparr>columns = [''Start Time'', ''Trip Duration'', ''Start Station'', ''End Station'',
                 ''User Type''],
      rows = [[Str ''2017-01-02 09:07:57'', Num 100, Str ''A'', Str ''B'', Str ''Subscriber''],
              [Str ''2017-01-09 10:00:00'', Num 200, Str ''A'', Str ''B'', Str ''Customer''],
              [Str ''2017-02-07 23:59:59'', Num 50, Str ''C'', Str ''D'', Str ''Subscriber'']]\<rparr>"

definition sample_conv :: "cell \<Rightarrow> timestamp option" where
  "sample_conv c =
     map_of [(Str ''2017-01-02 09:07:57'', TS 1483348077000000000),
             (Str ''2017-01-09 10:00:00'', TS 1483956000000000000),
             (Str ''2017-02-07 23:59:59'', TS 1486511999000000000),
             (NaN, NaT)] c"

definition sample_columns :: "string list" where
  "sample_columns = [''Start Time'', ''Trip Duration'', ''Start Station'', ''End Station'',
     ''User Type'', ''month'', ''day_of_week'', ''hour'']"

definition sample_row1 :: "cell list" where
  "sample_row1 = [Time (TS 1483348077000000000), Num 100, Str ''A'', Str ''B'',
     Str ''Subscriber'', Str ''january'', Str ''monday'', Num 9]"

definition sample_row2 :: "cell list" where
  "sample_row2 = [Time (TS 1483956000000000000), Num 200, Str ''A'', Str ''B'',
     Str ''Customer'', Str ''january'', Str ''monday'', Num 10]"

definition sample_row3 :: "cell list" where
  "sample_row3 = [Time (TS 1486511999000000000), Num 50, Str ''C'', Str ''D'',
     Str ''Subscriber'', Str ''february'', Str ''tuesday'', Num 23]"

definition sample_table :: dataframe where
  "sample_table = \<lparr>columns = sample_columns, rows = [sample_row1, sample_row2, sample_row3]\<rparr>"

text \<open>The same data set with no row left, as a filter that matches nothing returns it.\<close>

definition sample_empty :: dataframe where
  "sample_empty = \<lparr>columns = sample_columns, rows = []\<rparr>"

text \<open>
  An empty frame of a city whose file has the gender and the birth-year column.
\<close>

definition sample_empty_birth :: dataframe where
  "sample_empty_birth = \<lparr>columns = sample_columns @ [''Gender'', ''Birth Year''], rows = []\<rparr>"

text \<open>The twelve month names and the seven day names in lower case.\<close>

definition LOWER_MONTH_NAMES :: "string list" where
  "LOWER_MONTH_NAMES = [''january'', ''february'', ''march'', ''april'', ''may'', ''june'',
     ''july'', ''august'', ''september'', ''october'', ''november'', ''december'']"

definition LOWER_DAY_NAMES :: "string list" where
  "LOWER_DAY_NAMES = [''monday'', ''tuesday'', ''wednesday'', ''thursday'', ''friday'',
     ''saturday'', ''sunday'']"

text \<open>A file system that holds the sample as the file of Chicago.\<close>

definition sample_fs :: "string \<Rightarrow> dataframe option" where
  "sample_fs path = (if path = ''/mnt/data/chicago.csv'' then Some sample_raw else None)"




text \<open>
  Two trips as \<open>read_csv\<close> returns them when the start time of the second is blank
  in the file: the blank cell is NaN, and pandas parses it to NaT.
\<close>

definition sample_blank_raw :: dataframe where
  "sample_blank_raw =
     \<lparr>columns = [''Start Time'', ''Trip Duration'', ''Start Station'', ''End Station'',
                 ''User Type''],
      rows = [[Str ''2017-01-02 09:07:57'', Num 100, Str ''A'', Str ''B'', Str ''Subscriber''],
              [NaN, Num 60, Str ''A'', Str ''B'', Str ''Customer'']]\<rparr>"

definition sample_blank_row :: "cell list" where
  "sample_blank_row = [Time NaT, Num 60, Str ''A'', Str ''B'', Str ''Customer'', NaN, NaN, NaN]"

definition sample_blank_table :: dataframe where
  "sample_blank_table = \<lparr>columns = sample_columns, rows = [sample_row1, sample_blank_row]\<rparr>"

section \<open>Properties of the frame operations\<close>

lemma index_of_None: "index_of c xs = None \<longleftrightarrow> c \<notin> set xs"
  by (induction xs) auto

lemma index_of_Some: "index_of c xs = Some i \<Longrightarrow> i < length xs \<and> xs ! i = c"
  by (induction xs arbitrary: i) (auto split: if_splits)

lemma index_of_mem: "c \<in> set xs \<Longrightarrow> \<exists>i. index_of c xs = Some i"
  using index_of_None [of c xs] by (cases "index_of c xs") auto

lemma index_of_append_old: "index_of c xs = Some i \<Longrightarrow> index_of c (xs @ ys) = Some i"
  by (induction xs arbitrary: i) (auto split: if_splits)

lemma index_of_append_new: "c \<notin> set xs \<Longrightarrow> index_of c (xs @ [c]) = Some (length xs)"
  by (induction xs) auto

lemma select_filter: "map snd (filter fst (zip (map P xs) xs)) = filter P xs"
  by (induction xs) auto

lemma filter_eq_rows:
  assumes "index_of c (columns df) = Some i"
  shows "filter_eq df c v = Inr (df\<lparr>rows := filter (\<lambda>r. row_get df r c = Str v) (rows df)\<rparr>)"
  using assms select_filter [of "\<lambda>r. r ! i = Str v" "rows df"]
  by (simp add: filter_eq_def get_column_def select_rows_def eq_mask_def row_get_def comp_def)

lemma set_column_columns:
  "set_column df c vs = Inr df' \<Longrightarrow> set (columns df') = insert c (set (columns df))"
  by (auto simp: set_column_def index_of_None dest: index_of_Some split: if_splits option.splits)

lemma assign_from_columns:
  "assign_from df c src f = Inr df' \<Longrightarrow> set (columns df') = insert c (set (columns df))"
  by (auto simp: assign_from_def dest: set_column_columns split: sum.splits)

lemma derive_columns:
  assumes "load_data_derive conv raw = Inr t"
  shows "set (columns t) =
    set (columns raw) \<union> {''Start Time'', ''month'', ''day_of_week'', ''hour''}"
  using assms unfolding load_data_derive_def
  by (auto split: sum.splits dest!: assign_from_columns)

lemma filter_loaded:
  assumes "load_data_derive conv raw = Inr t"
  shows "load_data_filter t month day = Inr (t\<lparr>rows := filter (keeps t month day) (rows t)\<rparr>)"
proof -
  from derive_columns [OF assms]
  have "''month'' \<in> set (columns t)" and "''day_of_week'' \<in> set (columns t)" by auto
  then obtain i j where i: "index_of ''month'' (columns t) = Some i"
    and j: "index_of ''day_of_week'' (columns t) = Some j"
    using index_of_mem by metis
  let ?t1 = "t\<lparr>rows := filter (\<lambda>r. row_get t r ''month'' = Str month) (rows t)\<rparr>"
  have j1: "index_of ''day_of_week'' (columns ?t1) = Some j" using j by simp
  have rg: "\<And>r c. row_get ?t1 r c = row_get t r c" by (simp add: row_get_def)
  show ?thesis
    using filter_eq_rows [OF i, of month] filter_eq_rows [OF j, of day]
      filter_eq_rows [OF j1, of day]
    by (auto simp: load_data_filter_def keeps_def [abs_def] rg)
qed

lemma sample_loaded: "load_data_derive sample_conv sample_raw = Inr sample_table"
  by code_simp

section \<open>The filter\<close>

text \<open>
  C4. On a loaded table \<open>t\<close> (the frame with its derived columns), the filter returns
  \<open>t\<close> with exactly the rows whose month cell equals the month argument, when that is not
  "all", and whose day-of-week cell equals the day argument, when that is not "all"; the
  rows keep their order. With "all" and "all" the result is \<open>t\<close> itself.
\<close>

theorem filter_keeps_exactly:
  assumes "load_data_derive conv raw = Inr t"
  shows "load_data_filter t month day =
           Inr (t\<lparr>rows := filter (keeps t month day) (rows t)\<rparr>)
       \<and> load_data_filter t ''all'' ''all'' = Inr t"
  using filter_loaded [OF assms, of month day] filter_loaded [OF assms, of "''all''" "''all''"]
  by (simp add: keeps_def [abs_def])

theorem filter_keeps_exactly_witness:
  "load_data_derive sample_conv sample_raw = Inr sample_table
   \<and> load_data_filter sample_table ''january'' ''all''
       = Inr (sample_table\<lparr>rows := [sample_row1, sample_row2]\<rparr>)
   \<and> load_data_filter sample_table ''all'' ''all'' = Inr sample_table"
  using filter_keeps_exactly [OF sample_loaded, of "''january''" "''all''"] sample_loaded
  by (simp add: keeps_def row_get_def sample_table_def sample_columns_def
      sample_row1_def sample_row2_def sample_row3_def)

text \<open>
  C5. On a loaded table the filter succeeds for every month and day argument, and its
  result has the columns of its input and a subsequence of its rows: nothing is added,
  duplicated or reordered, and the result is no longer than the input.
\<close>

theorem filter_subsequence:
  assumes "load_data_derive conv raw = Inr t"
  shows "\<exists>t'. load_data_filter t month day = Inr t'
           \<and> columns t' = columns t
           \<and> subseq (rows t') (rows t)
           \<and> length (rows t') \<le> length (rows t)"
  using filter_loaded [OF assms, of month day] by simp

theorem filter_subsequence_witness:
  "load_data_derive sample_conv sample_raw = Inr sample_table
   \<and> load_data_filter sample_table ''february'' ''tuesday''
       = Inr (sample_table\<lparr>rows := [sample_row3]\<rparr>)
   \<and> subseq [sample_row3] [sample_row1, sample_row2, sample_row3]
   \<and> length [sample_row3] \<le> length (rows sample_table)"
proof -
  have "load_data_filter sample_table ''february'' ''tuesday''
      = Inr (sample_table\<lparr>rows := [sample_row3]\<rparr>)"
    by code_simp
  with filter_subsequence [OF sample_loaded, of "''february''" "''tuesday''"] sample_loaded
  show ?thesis by (auto simp: sample_table_def)
qed

section \<open>Statistics of an empty table\<close>

lemma get_column_empty:
  "rows df = [] \<Longrightarrow> get_column df c = Inl KeyError \<or> get_column df c = Inr []"
  by (simp add: get_column_def split: option.splits)

lemma get_column_empty_mem:
  "rows df = [] \<Longrightarrow> c \<in> set (columns df) \<Longrightarrow> get_column df c = Inr []"
  using index_of_mem [of c "columns df"] by (auto simp: get_column_def)

lemma series_mode_Nil: "series_mode [] = []"
  by (simp add: series_mode_def hash_mode_def dropna_def)

lemma display_statistics_empty:
  assumes "rows df = []"
  shows "display_statistics df column stat_name = Inl KeyError"
  using get_column_empty [OF assms, of column]
  by (auto simp: display_statistics_def series_mode_Nil)

lemma sample_filter_december:
  "load_data_filter sample_table ''december'' ''all'' = Inr sample_empty"
  by code_simp

lemma series_sum_Nil: "series_sum [] = Inr (Num 0)"
  by (simp add: series_sum_def is_int64_def wrap64_def)

lemma series_mean_Nil: "series_mean [] = Inr NaN"
  by (simp add: series_mean_def is_numeric_def dropna_def)

lemma value_counts_Nil: "value_counts [] = []"
  by (simp add: value_counts_def dropna_def)

text \<open>
  C1, as the claim states it, fails: filtering the sample for December leaves no row,
  and the most frequent month of that table ends with Python's KeyError, which is not
  the NoDataError of the claim.
\<close>

theorem empty_table_mode_counterexample:
  "load_data_filter sample_table ''december'' ''all'' = Inr sample_empty
   \<and> rows sample_empty = []
   \<and> display_statistics sample_empty ''month'' ''Month'' = Inl KeyError
   \<and> display_statistics sample_empty ''month'' ''Month'' \<noteq> Inl NoDataError"
  using sample_filter_december display_statistics_empty [of sample_empty "''month''" "''Month''"]
  by (simp add: sample_empty_def)

text \<open>
  C1, amended. On every empty table the most frequent value of any column is not
  computed: \<open>display_statistics\<close> ends with the KeyError that \<open>[0]\<close> raises on the empty
  result of \<open>mode()\<close>, and returns no default. \<open>time_stats\<close> and \<open>station_stats\<close> end with
  that KeyError at their first statistic and leave the table as it was.
\<close>

theorem empty_table_mode_fails:
  assumes "rows df = []"
  shows "display_statistics df column stat_name = Inl KeyError
       \<and> time_stats df = (Inl KeyError, df)
       \<and> station_stats df = (Inl KeyError, df)"
  using display_statistics_empty [OF assms]
  by (simp add: time_stats_def station_stats_def)

theorem empty_table_mode_fails_witness:
  "rows sample_empty = []
   \<and> display_statistics sample_empty ''hour'' ''Start Hour'' = Inl KeyError
   \<and> time_stats sample_empty = (Inl KeyError, sample_empty)
   \<and> station_stats sample_empty = (Inl KeyError, sample_empty)"
  using empty_table_mode_fails [of sample_empty "''hour''" "''Start Hour''"]
  by (simp add: sample_empty_def)

text \<open>
  C2, as the claim states it, fails: on the empty sample the duration statistics return
  the total 0 and the mean NaN; no error is raised for the mean.
\<close>

theorem empty_table_mean_counterexample:
  "rows sample_empty = []
   \<and> fst (trip_duration_stats sample_empty)
       = Inr \<lparr>total_duration = Num 0, mean_duration = NaN\<rparr>
   \<and> fst (trip_duration_stats sample_empty) \<noteq> Inl NoDataError"
  by (simp add: sample_empty_def sample_columns_def trip_duration_stats_def get_column_def
      series_sum_Nil series_mean_Nil)

text \<open>
  C2, amended. On every empty table that has the duration column, the duration
  statistics raise nothing: the total is 0 and the mean is returned as NaN.
\<close>

theorem empty_table_duration:
  assumes "rows df = []" and "''Trip Duration'' \<in> set (columns df)"
  shows "trip_duration_stats df = (Inr \<lparr>total_duration = Num 0, mean_duration = NaN\<rparr>, df)"
  using get_column_empty_mem [OF assms]
  by (simp add: trip_duration_stats_def series_sum_Nil series_mean_Nil)

theorem empty_table_duration_witness:
  "rows sample_empty = [] \<and> ''Trip Duration'' \<in> set (columns sample_empty)
   \<and> trip_duration_stats sample_empty
       = (Inr \<lparr>total_duration = Num 0, mean_duration = NaN\<rparr>, sample_empty)"
  using empty_table_duration [of sample_empty]
  by (simp add: sample_empty_def sample_columns_def)

text \<open>
  C7, as the claim states it, fails: on an empty table that has the birth-year column,
  \<open>min()\<close> is NaN and \<open>int\<close> of it raises ValueError, so the user statistics raise.
\<close>

theorem empty_table_user_stats_counterexample:
  "rows sample_empty_birth = []
   \<and> user_stats sample_empty_birth = (Inl ValueError, sample_empty_birth)"
  by (simp add: sample_empty_birth_def sample_columns_def user_stats_def get_column_def
      value_counts_Nil birth_year_stats_def series_min_def is_numeric_def dropna_def)

text \<open>
  C7, amended. On every empty table that has the user-type column and no birth-year
  column, the user statistics raise nothing and return the empty user-type counts; the
  gender counts are empty when the gender column is present and absent otherwise.
\<close>

theorem empty_table_user_stats:
  assumes "rows df = []" and "''User Type'' \<in> set (columns df)"
    and "''Birth Year'' \<notin> set (columns df)"
  shows "user_stats df =
     (Inr \<lparr>user_types = [],
           gender_distribution = (if ''Gender'' \<in> set (columns df) then Some [] else None),
           birth_years = None\<rparr>, df)"
  using get_column_empty_mem [OF assms(1,2)] get_column_empty_mem [OF assms(1), of "''Gender''"]
    assms(3)
  by (simp add: user_stats_def value_counts_Nil)

theorem empty_table_user_stats_witness:
  "rows sample_empty = [] \<and> ''User Type'' \<in> set (columns sample_empty)
   \<and> ''Birth Year'' \<notin> set (columns sample_empty)
   \<and> user_stats sample_empty =
     (Inr \<lparr>user_types = [], gender_distribution = None, birth_years = None\<rparr>, sample_empty)"
  using empty_table_user_stats [of sample_empty]
  by (simp add: sample_empty_def sample_columns_def)

section \<open>Pages of raw data\<close>

lemma iloc_window:
  assumes "0 \<le> a" and "0 \<le> n"
  shows "iloc df a (a + n) = df\<lparr>rows := take (nat n) (drop (nat a) (rows df))\<rparr>"
proof (cases "nat a < length (rows df)")
  case True
  with assms have "min (nat (a + n)) (length (rows df)) - nat a
      = min (nat n) (length (rows df) - nat a)"
    by (simp add: nat_add_distrib min_def)
  with True assms show ?thesis
    by (simp add: iloc_def slice_bound_def Let_def min_def take_all_iff)
next
  case False
  with assms show ?thesis
    by (simp add: iloc_def slice_bound_def Let_def)
qed

lemma display_raw_data_from_pages:
  "display_raw_data_from df n i (replicate k ''yes'' @ [''no''])
     = map (\<lambda>j. iloc df (i + int j * n) (i + int j * n + n)) [0..<k]"
proof (induction k arbitrary: i)
  case 0
  show ?case by simp
next
  case (Suc k)
  have "[0..<Suc k] = 0 # map Suc [0..<k]"
    by (simp add: upt_conv_Cons map_Suc_upt del: upt_Suc)
  then show ?case
    using Suc.IH [of "i + n"] by (simp add: algebra_simps del: upt_Suc)
qed

text \<open>
  C8. For an offset that is not negative and a size (a number of rows),
  \<open>df.iloc[offset:offset + size]\<close> is the frame with the rows at positions offset up to
  offset + size, in order, as far as the table has them: nothing at or past the end, the
  remaining rows where the window reaches over the end. It raises nothing.
  \<open>display_raw_data\<close> prints these windows at offsets 0, size, 2 size and so on, one for
  every "yes".
\<close>

theorem page_is_clipped_slice:
  fixes n k :: nat
  assumes "0 \<le> offset"
  shows "iloc df offset (offset + int n) = df\<lparr>rows := take n (drop (nat offset) (rows df))\<rparr>
       \<and> (length (rows df) \<le> nat offset \<longrightarrow> rows (iloc df offset (offset + int n)) = [])
       \<and> (length (rows df) \<le> nat offset + n \<longrightarrow>
            rows (iloc df offset (offset + int n)) = drop (nat offset) (rows df))
       \<and> display_raw_data df (int n) (replicate k ''yes'' @ [''no''])
            = map (\<lambda>j. df\<lparr>rows := take n (drop (j * n) (rows df))\<rparr>) [0..<k]"
proof -
  have "iloc df (int j * int n) (int j * int n + int n)
      = df\<lparr>rows := take n (drop (j * n) (rows df))\<rparr>" for j
    using iloc_window [of "int j * int n" "int n" df] by (simp add: nat_mult_distrib)
  then show ?thesis
    using iloc_window [OF assms, of "int n" df] display_raw_data_from_pages [of df "int n" 0 k]
    by (simp add: display_raw_data_def)
qed

theorem page_is_clipped_slice_witness:
  "(0::int) \<le> 0 \<and> (0::int) \<le> 5
   \<and> iloc sample_table 0 (0 + 5) = sample_table
   \<and> rows (iloc sample_table 5 (5 + 5)) = []
   \<and> display_raw_data sample_table 2 [''yes'', ''yes'', ''no'']
       = [sample_table\<lparr>rows := [sample_row1, sample_row2]\<rparr>,
          sample_table\<lparr>rows := [sample_row3]\<rparr>]"
  using page_is_clipped_slice [of 0 sample_table 5 0]
    page_is_clipped_slice [of 5 sample_table 5 0]
    page_is_clipped_slice [of 0 sample_table 2 2]
  by (simp add: sample_table_def numeral_2_eq_2)

section \<open>Column assignment and the derived columns\<close>

lemma wf_rows: "wf_df df \<Longrightarrow> r \<in> set (rows df) \<Longrightarrow> length r = length (columns df)"
  by (simp add: wf_df_def list_all_iff)

lemma nth_upd_col:
  "length rs = length vs \<Longrightarrow> \<forall>r\<in>set rs. i < length r \<Longrightarrow>
     map (\<lambda>r. r ! i) (map (\<lambda>(r, v). r[i := v]) (zip rs vs)) = vs"
  by (induction rs vs rule: list_induct2) auto

lemma nth_upd_other:
  "length rs = length vs \<Longrightarrow> j \<noteq> i \<Longrightarrow>
     map (\<lambda>r. r ! j) (map (\<lambda>(r, v). r[i := v]) (zip rs vs)) = map (\<lambda>r. r ! j) rs"
  by (induction rs vs rule: list_induct2) auto

lemma nth_app_col:
  "length rs = length vs \<Longrightarrow> \<forall>r\<in>set rs. length r = n \<Longrightarrow>
     map (\<lambda>r. r ! n) (map (\<lambda>(r, v). r @ [v]) (zip rs vs)) = vs"
  by (induction rs vs rule: list_induct2) auto

lemma nth_app_other:
  "length rs = length vs \<Longrightarrow> \<forall>r\<in>set rs. length r = n \<Longrightarrow> j < n \<Longrightarrow>
     map (\<lambda>r. r ! j) (map (\<lambda>(r, v). r @ [v]) (zip rs vs)) = map (\<lambda>r. r ! j) rs"
  by (induction rs vs rule: list_induct2) (auto simp: nth_append)

lemma len_upd_rows:
  "length rs = length vs \<Longrightarrow> \<forall>r\<in>set rs. length r = n \<Longrightarrow>
     \<forall>r\<in>set (map (\<lambda>(r, v). r[i := v]) (zip rs vs)). length r = n"
  by (induction rs vs rule: list_induct2) auto

lemma len_app_rows:
  "length rs = length vs \<Longrightarrow> \<forall>r\<in>set rs. length r = n \<Longrightarrow>
     \<forall>r\<in>set (map (\<lambda>(r, v). r @ [v]) (zip rs vs)). length r = Suc n"
  by (induction rs vs rule: list_induct2) auto

lemma index_of_append_other:
  "c' \<noteq> c \<Longrightarrow> index_of c' (xs @ [c]) = index_of c' xs"
  by (induction xs) auto

lemma set_column_wf:
  assumes "wf_df df" and "set_column df c vs = Inr df'"
  shows "wf_df df'"
proof (cases "index_of c (columns df)")
  case None
  then have "c \<notin> set (columns df)" by (simp add: index_of_None)
  with assms len_app_rows [of "rows df" vs "length (columns df)"] None show ?thesis
    by (auto simp: set_column_def wf_df_def list_all_iff split: if_splits)
next
  case (Some i)
  with assms len_upd_rows [of "rows df" vs "length (columns df)" i] show ?thesis
    by (auto simp: set_column_def wf_df_def list_all_iff split: if_splits)
qed

lemma set_column_same:
  assumes "wf_df df" and "set_column df c vs = Inr df'"
  shows "get_column df' c = Inr vs"
proof (cases "index_of c (columns df)")
  case None
  then have "c \<notin> set (columns df)" by (simp add: index_of_None)
  with assms None nth_app_col [of "rows df" vs "length (columns df)"] show ?thesis
    by (auto simp: set_column_def get_column_def index_of_append_new wf_df_def list_all_iff
        split: if_splits)
next
  case (Some i)
  then have "i < length (columns df)" by (simp add: index_of_Some)
  with assms Some nth_upd_col [of "rows df" vs i] show ?thesis
    by (auto simp: set_column_def get_column_def wf_df_def list_all_iff split: if_splits)
qed

lemma set_column_other:
  assumes "wf_df df" and "set_column df c vs = Inr df'" and "c' \<noteq> c"
  shows "get_column df' c' = get_column df c'"
proof (cases "index_of c (columns df)")
  case None
  show ?thesis
  proof (cases "index_of c' (columns df)")
    case n: None
    with assms None show ?thesis
      by (auto simp: set_column_def get_column_def index_of_append_other split: if_splits)
  next
    case (Some j)
    then have "j < length (columns df)" by (simp add: index_of_Some)
    with assms None Some nth_app_other [of "rows df" vs "length (columns df)" j] show ?thesis
      by (auto simp: set_column_def get_column_def index_of_append_other wf_df_def list_all_iff
          split: if_splits)
  qed
next
  case (Some i)
  show ?thesis
  proof (cases "index_of c' (columns df)")
    case None
    with assms Some show ?thesis
      by (auto simp: set_column_def get_column_def split: if_splits)
  next
    case j: (Some j)
    from index_of_Some [OF Some] index_of_Some [OF j] assms(3) have "j \<noteq> i" by auto
    with assms Some j nth_upd_other [of "rows df" vs j i] show ?thesis
      by (auto simp: set_column_def get_column_def split: if_splits)
  qed
qed

lemma assign_from_result:
  assumes "wf_df df" and "assign_from df tgt src f = Inr df'"
  shows "\<exists>s vs. get_column df src = Inr s \<and> f s = Inr vs \<and> wf_df df'
           \<and> get_column df' tgt = Inr vs
           \<and> (\<forall>c. c \<noteq> tgt \<longrightarrow> get_column df' c = get_column df c)"
  using assms set_column_wf set_column_same set_column_other
  by (auto simp: assign_from_def split: sum.splits)

lemma to_datetime_result:
  "to_datetime conv s = Inr st \<Longrightarrow> list_all is_time st"
  by (auto simp: to_datetime_def list_all_iff split: if_splits)

lemma dt_apply_result:
  "list_all is_time s \<Longrightarrow> dt_apply f s = Inr (map f s)"
  by (simp add: dt_apply_def)

lemma derive_result:
  assumes "wf_df raw" and "load_data_derive conv raw = Inr t"
  shows "wf_df t \<and> (\<exists>st. list_all is_time st
           \<and> get_column t ''Start Time'' = Inr st
           \<and> get_column t ''month'' = Inr (map (\<lambda>c. str_lower_cell (month_name_cell c)) st)
           \<and> get_column t ''day_of_week'' = Inr (map (\<lambda>c. str_lower_cell (day_name_cell c)) st)
           \<and> get_column t ''hour'' = Inr (map hour_cell st))"
proof -
  let ?fm = "\<lambda>s. map_sum id (map str_lower_cell) (dt_apply month_name_cell s)"
  let ?fd = "\<lambda>s. map_sum id (map str_lower_cell) (dt_apply day_name_cell s)"
  from assms(2) obtain df1 df2 df3 where
    a1: "assign_from raw ''Start Time'' ''Start Time'' (to_datetime conv) = Inr df1" and
    a2: "assign_from df1 ''month'' ''Start Time'' ?fm = Inr df2" and
    a3: "assign_from df2 ''day_of_week'' ''Start Time'' ?fd = Inr df3" and
    a4: "assign_from df3 ''hour'' ''Start Time'' (dt_apply hour_cell) = Inr t"
    unfolding load_data_derive_def by (auto split: sum.splits)
  from assign_from_result [OF assms(1) a1] obtain s0 st where
    w1: "wf_df df1" and st: "to_datetime conv s0 = Inr st"
    and c1: "get_column df1 ''Start Time'' = Inr st" by auto
  have ti: "list_all is_time st" using to_datetime_result [OF st] .
  from assign_from_result [OF w1 a2] c1 dt_apply_result [OF ti] have
    w2: "wf_df df2"
    and m2: "get_column df2 ''month'' = Inr (map (\<lambda>c. str_lower_cell (month_name_cell c)) st)"
    and s2: "get_column df2 ''Start Time'' = Inr st"
    by (auto simp: comp_def)
  from assign_from_result [OF w2 a3] s2 m2 dt_apply_result [OF ti] have
    w3: "wf_df df3"
    and d3: "get_column df3 ''day_of_week'' = Inr (map (\<lambda>c. str_lower_cell (day_name_cell c)) st)"
    and m3: "get_column df3 ''month'' = Inr (map (\<lambda>c. str_lower_cell (month_name_cell c)) st)"
    and s3: "get_column df3 ''Start Time'' = Inr st"
    by (auto simp: comp_def)
  from assign_from_result [OF w3 a4] s3 m3 d3 dt_apply_result [OF ti] have
    "wf_df t"
    and "get_column t ''hour'' = Inr (map hour_cell st)"
    and "get_column t ''day_of_week'' = Inr (map (\<lambda>c. str_lower_cell (day_name_cell c)) st)"
    and "get_column t ''month'' = Inr (map (\<lambda>c. str_lower_cell (month_name_cell c)) st)"
    and "get_column t ''Start Time'' = Inr st"
    by (auto simp: comp_def)
  with ti show ?thesis by blast
qed

lemma row_of_columns:
  assumes "get_column df c = Inr col" and "get_column df c' = Inr (map g col)"
    and "r \<in> set (rows df)"
  shows "row_get df r c' = g (row_get df r c)"
proof -
  from assms(1) obtain i where i: "index_of c (columns df) = Some i"
    and col: "col = map (\<lambda>r. r ! i) (rows df)"
    by (auto simp: get_column_def split: option.splits)
  from assms(2) obtain j where j: "index_of c' (columns df) = Some j"
    and "map (\<lambda>r. r ! j) (rows df) = map g col"
    by (auto simp: get_column_def split: option.splits)
  with col assms(3) have "r ! j = g (r ! i)" by simp
  with i j show ?thesis by (simp add: row_get_def)
qed

lemma row_in_column:
  assumes "get_column df c = Inr col" and "r \<in> set (rows df)"
  shows "row_get df r c \<in> set col"
  using assms by (auto simp: get_column_def row_get_def split: option.splits)

lemma month_in_year_le: "month_in_year ls d i \<le> i + length ls"
proof (induction ls arbitrary: d i)
  case Nil
  show ?case by simp
next
  case (Cons l ls)
  from Cons.IH [of "d - l" "i + 1"] show ?case by simp
qed

lemma ts_month_le: "ts_month ns \<le> 12"
  using month_in_year_le [of "month_lengths b" d 0 for b d]
  by (simp add: ts_month_def month_lengths_def split: prod.splits)

lemma ts_dayofweek_less: "ts_dayofweek ns < 7"
  by (simp add: ts_dayofweek_def)

lemma ts_hour_less: "ts_hour ns < 24"
  by (simp add: ts_hour_def)

lemma lower_month_names: "map lower MONTH_NAMES = LOWER_MONTH_NAMES"
  by code_simp

lemma lower_day_names: "map lower DAY_NAMES = LOWER_DAY_NAMES"
  by code_simp

lemma month_name_lower:
  "\<exists>m\<in>set LOWER_MONTH_NAMES. str_lower_cell (month_name_cell (Time (TS ns))) = Str m"
proof -
  have k: "ts_month ns - 1 < length MONTH_NAMES"
    using ts_month_le [of ns] by (simp add: MONTH_NAMES_def)
  then have "lower (MONTH_NAMES ! (ts_month ns - 1)) \<in> set (map lower MONTH_NAMES)"
    by (metis length_map nth_map nth_mem)
  then show ?thesis by (simp add: lower_month_names)
qed

lemma day_name_lower:
  "\<exists>d\<in>set LOWER_DAY_NAMES. str_lower_cell (day_name_cell (Time (TS ns))) = Str d"
proof -
  have k: "ts_dayofweek ns < length DAY_NAMES"
    using ts_dayofweek_less [of ns] by (simp add: DAY_NAMES_def)
  then have "lower (DAY_NAMES ! ts_dayofweek ns) \<in> set (map lower DAY_NAMES)"
    by (metis length_map nth_map nth_mem)
  then show ?thesis by (simp add: lower_day_names)
qed

lemma derived_row:
  assumes "wf_df raw" and "load_data_derive conv raw = Inr t" and "r \<in> set (rows t)"
  shows "is_time (row_get t r ''Start Time'')"
    and "row_get t r ''month'' = str_lower_cell (month_name_cell (row_get t r ''Start Time''))"
    and "row_get t r ''day_of_week''
           = str_lower_cell (day_name_cell (row_get t r ''Start Time''))"
    and "row_get t r ''hour'' = hour_cell (row_get t r ''Start Time'')"
proof -
  from derive_result [OF assms(1,2)] obtain st where ti: "list_all is_time st"
    and s: "get_column t ''Start Time'' = Inr st"
    and m: "get_column t ''month'' = Inr (map (\<lambda>c. str_lower_cell (month_name_cell c)) st)"
    and d: "get_column t ''day_of_week'' = Inr (map (\<lambda>c. str_lower_cell (day_name_cell c)) st)"
    and h: "get_column t ''hour'' = Inr (map hour_cell st)"
    by blast
  show "is_time (row_get t r ''Start Time'')"
    using row_in_column [OF s assms(3)] ti by (simp add: list_all_iff)
  show "row_get t r ''month'' = str_lower_cell (month_name_cell (row_get t r ''Start Time''))"
    using row_of_columns [OF s m assms(3)] .
  show "row_get t r ''day_of_week''
          = str_lower_cell (day_name_cell (row_get t r ''Start Time''))"
    using row_of_columns [OF s d assms(3)] .
  show "row_get t r ''hour'' = hour_cell (row_get t r ''Start Time'')"
    using row_of_columns [OF s h assms(3)] .
qed

lemma sample_raw_wf: "wf_df sample_raw"
  by (simp add: wf_df_def sample_raw_def)

lemma sample_blank_loaded:
  "load_data_derive sample_conv sample_blank_raw = Inr sample_blank_table"
  by code_simp

lemma sample_blank_raw_wf: "wf_df sample_blank_raw"
  by (simp add: wf_df_def sample_blank_raw_def)

text \<open>
  C9, as the claim states it, fails: a trip whose start time is blank in the file is
  loaded as a row with the start time NaT, and its month, day of the week and hour are
  NaN, which is no month name, no day name and no hour.
\<close>

theorem derived_fields_counterexample:
  "load_data_derive sample_conv sample_blank_raw = Inr sample_blank_table
   \<and> sample_blank_row \<in> set (rows sample_blank_table)
   \<and> row_get sample_blank_table sample_blank_row ''Start Time'' = Time NaT
   \<and> row_get sample_blank_table sample_blank_row ''month'' = NaN
   \<and> row_get sample_blank_table sample_blank_row ''month'' \<notin> Str ` set LOWER_MONTH_NAMES
   \<and> row_get sample_blank_table sample_blank_row ''day_of_week'' = NaN
   \<and> row_get sample_blank_table sample_blank_row ''day_of_week'' \<notin> Str ` set LOWER_DAY_NAMES
   \<and> row_get sample_blank_table sample_blank_row ''hour'' = NaN"
  using sample_blank_loaded
  by (auto simp: sample_blank_table_def sample_columns_def sample_blank_row_def row_get_def)

text \<open>
  C9, amended. In every row of a loaded table the month, the day of the week and the
  hour are functions of the start time of that row and of nothing else, so rows with the
  same start time have the same derived values however often they are computed. The
  start time is a timestamp or NaT. For a timestamp, the month is one of the twelve
  lower-case month names, the day of the week one of the seven lower-case day names, and
  the hour a whole number from 0 to 23; these are the strings the filter compares with.
  For NaT, the start time of a trip whose start time is missing in the file, the month,
  the day of the week and the hour are NaN.
\<close>

theorem derived_fields:
  assumes "wf_df raw" and "load_data_derive conv raw = Inr t" and "r \<in> set (rows t)"
  shows "is_time (row_get t r ''Start Time'')
       \<and> row_get t r ''month'' = str_lower_cell (month_name_cell (row_get t r ''Start Time''))
       \<and> row_get t r ''day_of_week'' = str_lower_cell (day_name_cell (row_get t r ''Start Time''))
       \<and> row_get t r ''hour'' = hour_cell (row_get t r ''Start Time'')
       \<and> (\<forall>ns. row_get t r ''Start Time'' = Time (TS ns) \<longrightarrow>
            (\<exists>m\<in>set LOWER_MONTH_NAMES. row_get t r ''month'' = Str m)
          \<and> (\<exists>d\<in>set LOWER_DAY_NAMES. row_get t r ''day_of_week'' = Str d)
          \<and> (\<exists>h<24. row_get t r ''hour'' = Num (of_nat h)))
       \<and> (row_get t r ''Start Time'' = Time NaT \<longrightarrow>
            row_get t r ''month'' = NaN \<and> row_get t r ''day_of_week'' = NaN
          \<and> row_get t r ''hour'' = NaN)"
  using derived_row [OF assms] month_name_lower day_name_lower ts_hour_less by auto

theorem derived_fields_witness:
  "wf_df sample_raw \<and> load_data_derive sample_conv sample_raw = Inr sample_table
   \<and> sample_row1 \<in> set (rows sample_table)
   \<and> row_get sample_table sample_row1 ''Start Time'' = Time (TS 1483348077000000000)
   \<and> row_get sample_table sample_row1 ''month'' = Str ''january''
   \<and> row_get sample_table sample_row1 ''day_of_week'' = Str ''monday''
   \<and> row_get sample_table sample_row1 ''hour'' = Num 9
   \<and> wf_df sample_blank_raw
   \<and> load_data_derive sample_conv sample_blank_raw = Inr sample_blank_table
   \<and> sample_blank_row \<in> set (rows sample_blank_table)
   \<and> row_get sample_blank_table sample_blank_row ''Start Time'' = Time NaT
   \<and> row_get sample_blank_table sample_blank_row ''month'' = NaN
   \<and> row_get sample_blank_table sample_blank_row ''day_of_week'' = NaN
   \<and> row_get sample_blank_table sample_blank_row ''hour'' = NaN"
proof -
  have 1: "sample_row1 \<in> set (rows sample_table)"
    and 2: "sample_blank_row \<in> set (rows sample_blank_table)"
    by (simp_all add: sample_table_def sample_blank_table_def)
  have 3: "row_get sample_table sample_row1 ''Start Time'' = Time (TS 1483348077000000000)"
    and 4: "row_get sample_blank_table sample_blank_row ''Start Time'' = Time NaT"
    by (simp_all add: sample_table_def sample_blank_table_def sample_columns_def
        sample_row1_def sample_blank_row_def row_get_def)
  from derived_fields [OF sample_raw_wf sample_loaded 1] 3
  have "row_get sample_table sample_row1 ''month'' = Str ''january''
      \<and> row_get sample_table sample_row1 ''day_of_week'' = Str ''monday''
      \<and> row_get sample_table sample_row1 ''hour'' = Num 9"
    by (simp add: sample_table_def sample_columns_def sample_row1_def row_get_def)
  moreover from derived_fields [OF sample_blank_raw_wf sample_blank_loaded 2] 4
  have "row_get sample_blank_table sample_blank_row ''month'' = NaN
      \<and> row_get sample_blank_table sample_blank_row ''day_of_week'' = NaN
      \<and> row_get sample_blank_table sample_blank_row ''hour'' = NaN"
    by simp
  ultimately show ?thesis
    using 1 2 3 4 sample_raw_wf sample_loaded sample_blank_raw_wf sample_blank_loaded
    by simp
qed

section \<open>Filter values outside the recognized names\<close>

lemma month_cell_cases:
  assumes "is_time c"
  shows "str_lower_cell (month_name_cell c) = NaN
       \<or> (\<exists>m\<in>set LOWER_MONTH_NAMES. str_lower_cell (month_name_cell c) = Str m)"
proof (cases c)
  case (Time ts)
  then show ?thesis using month_name_lower by (cases ts) auto
qed (use assms in auto)

lemma day_cell_cases:
  assumes "is_time c"
  shows "str_lower_cell (day_name_cell c) = NaN
       \<or> (\<exists>d\<in>set LOWER_DAY_NAMES. str_lower_cell (day_name_cell c) = Str d)"
proof (cases c)
  case (Time ts)
  then show ?thesis using day_name_lower by (cases ts) auto
qed (use assms in auto)

lemma invalid_filter_rows:
  assumes "wf_df raw" and "load_data_derive conv raw = Inr t"
    and "(month \<noteq> ''all'' \<and> month \<notin> set LOWER_MONTH_NAMES)
       \<or> (day \<noteq> ''all'' \<and> day \<notin> set LOWER_DAY_NAMES)"
  shows "load_data_filter t month day = Inr (t\<lparr>rows := []\<rparr>)"
proof -
  have "\<not> keeps t month day r" if r: "r \<in> set (rows t)" for r
  proof -
    from derived_row [OF assms(1,2) r]
    have ti: "is_time (row_get t r ''Start Time'')"
      and m: "row_get t r ''month'' = str_lower_cell (month_name_cell (row_get t r ''Start Time''))"
      and d: "row_get t r ''day_of_week'' = str_lower_cell (day_name_cell (row_get t r ''Start Time''))"
      by auto
    from month_cell_cases [OF ti] day_cell_cases [OF ti] m d assms(3) show ?thesis
      by (auto simp: keeps_def)
  qed
  then have "filter (keeps t month day) (rows t) = []" by (simp add: filter_empty_conv)
  with filter_loaded [OF assms(2), of month day] show ?thesis by simp
qed

lemma get_column_err: "get_column df c = Inl e \<Longrightarrow> e = KeyError"
  by (auto simp: get_column_def split: option.splits)

lemma set_column_err: "set_column df c vs = Inl e \<Longrightarrow> e = ValueError"
  by (auto simp: set_column_def split: if_splits option.splits)

lemma assign_from_err:
  "assign_from df tgt src f = Inl e \<Longrightarrow> e = KeyError \<or> e = ValueError \<or> (\<exists>s. f s = Inl e)"
  by (auto simp: assign_from_def split: sum.splits dest: get_column_err set_column_err)

lemma to_datetime_err: "to_datetime conv s = Inl e \<Longrightarrow> e = ValueError"
  by (auto simp: to_datetime_def split: if_splits)

lemma dt_apply_err: "dt_apply f s = Inl e \<Longrightarrow> e = AttributeError"
  by (auto simp: dt_apply_def split: if_splits)

lemma dt_lower_err: "map_sum id g (dt_apply f s) = Inl e \<Longrightarrow> e = AttributeError"
  by (cases "dt_apply f s") (auto dest: dt_apply_err)

lemma derive_err:
  assumes "load_data_derive conv df = Inl e"
  shows "e = KeyError \<or> e = ValueError \<or> e = AttributeError"
  using assms unfolding load_data_derive_def
  by (auto split: sum.splits dest!: assign_from_err dest: to_datetime_err dt_apply_err dt_lower_err)

lemma filter_err:
  assumes "load_data_filter df month day = Inl e"
  shows "e = KeyError"
  using assms
  by (auto simp: load_data_filter_def filter_eq_def split: sum.splits if_splits dest: get_column_err)

lemma load_data_err:
  assumes "load_data read_csv conv city month day = Inl e"
  shows "e = KeyError \<or> e = FileNotFoundError \<or> e = ValueError \<or> e = AttributeError"
  using assms
  by (auto simp: load_data_def split: option.splits sum.splits dest: derive_err filter_err)

lemma get_user_input_valid:
  "get_user_input valid_inputs stdin = (Inr r, rest) \<Longrightarrow> r \<in> set valid_inputs"
  by (induction stdin) (auto simp: Let_def split: if_splits)

lemma get_filters_valid:
  assumes "get_filters stdin = (Inr (city, month, day), rest)"
  shows "city \<in> set (map fst CITY_DATA) \<and> month \<in> set MONTH_INPUTS \<and> day \<in> set DAY_INPUTS"
  using assms unfolding get_filters_def
  by (auto split: prod.splits sum.splits dest: get_user_input_valid)

text \<open>
  C3, amended. \<open>load_data\<close> does not validate its month and day arguments and never
  raises InvalidFilterError. A month that is neither "all" nor one of the twelve
  lower-case month names, or a day that is neither "all" nor one of the seven lower-case
  day names, equals the derived cell of no row, so the filter returns the loaded table
  with no rows. The recognized values are enforced before the call, by
  \<open>get_user_input\<close>.
\<close>

theorem invalid_filter_yields_empty:
  assumes "wf_df raw" and "load_data_derive conv raw = Inr t"
    and "(month \<noteq> ''all'' \<and> month \<notin> set LOWER_MONTH_NAMES)
       \<or> (day \<noteq> ''all'' \<and> day \<notin> set LOWER_DAY_NAMES)"
  shows "load_data_filter t month day = Inr (t\<lparr>rows := []\<rparr>)
       \<and> load_data read_csv conv city month day \<noteq> Inl InvalidFilterError"
  using invalid_filter_rows [OF assms] load_data_err [of read_csv conv city month day InvalidFilterError]
  by auto

lemma sample_janvier:
  "load_data sample_fs sample_conv ''chicago'' ''janvier'' ''all'' = Inr sample_empty"
  by code_simp

text \<open>
  C3, as the claim states it, fails: "janvier" is neither "all" nor a month name, and
  \<open>load_data\<close> returns the sample with no row left instead of raising.
\<close>

theorem invalid_filter_counterexample:
  "''janvier'' \<noteq> ''all'' \<and> ''janvier'' \<notin> set LOWER_MONTH_NAMES
   \<and> load_data sample_fs sample_conv ''chicago'' ''janvier'' ''all'' = Inr sample_empty
   \<and> load_data sample_fs sample_conv ''chicago'' ''janvier'' ''all'' \<noteq> Inl InvalidFilterError"
  using sample_janvier by (simp add: LOWER_MONTH_NAMES_def)

theorem invalid_filter_yields_empty_witness:
  "wf_df sample_raw \<and> load_data_derive sample_conv sample_raw = Inr sample_table
   \<and> ''Monday'' \<noteq> ''all'' \<and> ''Monday'' \<notin> set LOWER_DAY_NAMES
   \<and> load_data_filter sample_table ''january'' ''Monday'' = Inr (sample_table\<lparr>rows := []\<rparr>)
   \<and> load_data sample_fs sample_conv ''chicago'' ''january'' ''Monday'' \<noteq> Inl InvalidFilterError"
  using invalid_filter_yields_empty [OF sample_raw_wf sample_loaded,
      of "''january''" "''Monday''" sample_fs "''chicago''"] sample_raw_wf sample_loaded
  by (simp add: LOWER_DAY_NAMES_def)

section \<open>The most frequent value\<close>















section \<open>The table after a call\<close>

lemma select_rows_frame:
  "columns (select_rows df bs) = columns df \<and> set (rows (select_rows df bs)) \<subseteq> set (rows df)"
  by (auto simp: select_rows_def dest: set_zip_rightD)

lemma filter_eq_frame:
  "filter_eq df c v = Inr df' \<Longrightarrow> columns df' = columns df \<and> set (rows df') \<subseteq> set (rows df)"
  using select_rows_frame by (auto simp: filter_eq_def split: sum.splits)

lemma load_data_filter_frame:
  assumes "load_data_filter df month day = Inr df'"
  shows "columns df' = columns df \<and> set (rows df') \<subseteq> set (rows df)"
proof -
  from assms obtain df1 where
    1: "(if month \<noteq> ''all'' then filter_eq df ''month'' month else Inr df) = Inr df1"
    and 2: "(if day \<noteq> ''all'' then filter_eq df1 ''day_of_week'' day else Inr df1) = Inr df'"
    by (auto simp: load_data_filter_def split: sum.splits)
  from 1 have "columns df1 = columns df \<and> set (rows df1) \<subseteq> set (rows df)"
    by (auto split: if_splits dest: filter_eq_frame)
  moreover from 2 have "columns df' = columns df1 \<and> set (rows df') \<subseteq> set (rows df1)"
    by (auto split: if_splits dest: filter_eq_frame)
  ultimately show ?thesis by auto
qed

lemma time_stats_frame: "snd (time_stats df) = df"
  by (simp add: time_stats_def split: sum.splits)

lemma trip_duration_stats_frame: "snd (trip_duration_stats df) = df"
  by (simp add: trip_duration_stats_def split: sum.splits)

lemma user_stats_frame: "snd (user_stats df) = df"
  by (simp add: user_stats_def split: sum.splits)

lemma station_stats_frame:
  "snd (station_stats df) = df
   \<or> (\<exists>vs. start_end_combination df = Inr vs
          \<and> set_column df ''Start-End Combination'' vs = Inr (snd (station_stats df)))"
  by (simp add: station_stats_def split: sum.splits)

lemma station_stats_other_columns:
  assumes "wf_df df" and "c \<noteq> ''Start-End Combination''"
  shows "get_column (snd (station_stats df)) c = get_column df c"
  using station_stats_frame [of df] set_column_other [OF assms(1) _ assms(2)] by auto

text \<open>
  C6, amended. The filter returns a frame with the columns of its input and with rows
  of its input; the input is not changed. \<open>time_stats\<close>, \<open>trip_duration_stats\<close> and
  \<open>user_stats\<close> leave the table they receive as it was. \<open>station_stats\<close> either leaves
  the table as it was (when it raises before line 112) or sets the column
  "Start-End Combination" of the table to the start station, " to " and the end station
  of each row; every other column of the table keeps its values.
\<close>

theorem tables_after_calls:
  "(\<forall>df'. load_data_filter df month day = Inr df' \<longrightarrow>
        columns df' = columns df \<and> set (rows df') \<subseteq> set (rows df))
   \<and> snd (time_stats df) = df
   \<and> snd (trip_duration_stats df) = df
   \<and> snd (user_stats df) = df
   \<and> (snd (station_stats df) = df
       \<or> (\<exists>vs. start_end_combination df = Inr vs
              \<and> set_column df ''Start-End Combination'' vs = Inr (snd (station_stats df))))
   \<and> (wf_df df \<longrightarrow>
        (\<forall>c. c \<noteq> ''Start-End Combination'' \<longrightarrow>
           get_column (snd (station_stats df)) c = get_column df c))"
  using load_data_filter_frame [of df month day] time_stats_frame trip_duration_stats_frame
    user_stats_frame station_stats_frame [of df] station_stats_other_columns [of df]
  by blast

lemma sample_station_stats:
  "columns (snd (station_stats sample_table)) = sample_columns @ [''Start-End Combination'']"
  by code_simp

text \<open>
  C6, as the claim states it, fails: \<open>station_stats\<close> assigns to
  \<open>df['Start-End Combination']\<close>, so the table it received has one more column after
  the call.
\<close>

theorem station_stats_counterexample:
  "columns (snd (station_stats sample_table)) = columns sample_table @ [''Start-End Combination'']
   \<and> snd (station_stats sample_table) \<noteq> sample_table"
proof -
  have "columns (snd (station_stats sample_table)) \<noteq> columns sample_table"
    using sample_station_stats by (simp add: sample_table_def)
  then have "snd (station_stats sample_table) \<noteq> sample_table" by auto
  with sample_station_stats show ?thesis by (simp add: sample_table_def)
qed

lemma sample_table_wf: "wf_df sample_table"
  by (simp add: wf_df_def sample_table_def sample_columns_def sample_row1_def sample_row2_def
      sample_row3_def)

lemma sample_january:
  "load_data_filter sample_table ''january'' ''all''
     = Inr (sample_table\<lparr>rows := [sample_row1, sample_row2]\<rparr>)"
  by code_simp

theorem tables_after_calls_witness:
  "wf_df sample_table
   \<and> load_data_filter sample_table ''january'' ''all''
       = Inr (sample_table\<lparr>rows := [sample_row1, sample_row2]\<rparr>)
   \<and> set [sample_row1, sample_row2] \<subseteq> set (rows sample_table)
   \<and> snd (time_stats sample_table) = sample_table
   \<and> snd (station_stats sample_table) \<noteq> sample_table
   \<and> get_column (snd (station_stats sample_table)) ''Start Station''
       = get_column sample_table ''Start Station''"
proof -
  have "columns (snd (station_stats sample_table)) \<noteq> columns sample_table"
    using sample_station_stats by (simp add: sample_table_def)
  then have ne: "snd (station_stats sample_table) \<noteq> sample_table" by auto
  from tables_after_calls [of sample_table "''january''" "''all''"] sample_table_wf
    sample_january ne
  show ?thesis by auto
qed

end
